theory Spec2Isabelle
  imports Complex_Main "HOL-Library.Multiset"
begin

section \<open>Data model (shared/schema.ts)\<close>

text \<open>
  Rows of the three tables the booking core reads and writes. Identifiers and foreign
  keys are integers; timestamps are milliseconds since the epoch (what \<open>Date\<close> values
  compare by); numbers are the rationals that the floating-point values denote; a
  nullable column is an option. Field names are the columns' names, prefixed where two
  tables share one.
\<close>

record parkingLocation =
  location_id :: int
  location_name :: string
  address :: string
  latitude :: rat
  longitude :: rat
  totalSpots :: int
  hourlyRate :: rat
  rating :: "rat option"
  reviewCount :: "int option"
  hasMetroAccess :: "bool option"

record parkingSpot =
  spot_id :: int
  spot_locationId :: int
  spotNumber :: string
  spot_level :: "string option"
  spot_section :: "string option"
  isAvailable :: "bool option"
  spotType :: "string option"

record parkingBooking =
  booking_id :: int
  userId :: int
  vehicleId :: int
  spotId :: int
  locationId :: int
  startTime :: int
  endTime :: int
  status :: string
  bookingCode :: string
  totalAmount :: rat
  createdAt :: "int option"
  isFavorite :: "bool option"

text \<open>\<open>InsertParkingBooking\<close>: a booking row without \<open>id\<close> and \<open>createdAt\<close>;
  \<open>status\<close> and \<open>isFavorite\<close> have column defaults and may be absent.\<close>

record insertParkingBooking =
  ins_userId :: int
  ins_vehicleId :: int
  ins_spotId :: int
  ins_locationId :: int
  ins_startTime :: int
  ins_endTime :: int
  ins_status :: "string option"
  ins_bookingCode :: string
  ins_totalAmount :: rat
  ins_isFavorite :: "bool option"

text \<open>
  A time as a request body holds it. The routes read \<open>req.body\<close> as parsed JSON, which can
  hold a string or a number but never a \<open>Date\<close>: \<open>JsonTime t\<close> is such a value, with \<open>t\<close> the
  milliseconds that \<open>new Date(value).getTime()\<close> gives (a string that does not parse is not
  modelled). \<open>DateObject t\<close> is a \<open>Date\<close>, which only a caller inside the process can pass.
\<close>

datatype bodyTime = JsonTime int | DateObject int

fun date_of :: "bodyTime \<Rightarrow> int" where
  "date_of (JsonTime t) = t"
| "date_of (DateObject t) = t"

fun is_date :: "bodyTime \<Rightarrow> bool" where
  "is_date (JsonTime t) = False"
| "is_date (DateObject t) = True"

text \<open>\<open>Partial<ParkingBooking>\<close> as the update routes pass it: every field optional, the
  times as the body holds them. The generated columns \<open>id\<close> and \<open>createdAt\<close> are not part
  of the patches modelled.\<close>

record bookingUpdate =
  upd_userId :: "int option"
  upd_vehicleId :: "int option"
  upd_spotId :: "int option"
  upd_locationId :: "int option"
  upd_startTime :: "bodyTime option"
  upd_endTime :: "bodyTime option"
  upd_status :: "string option"
  upd_bookingCode :: "string option"
  upd_totalAmount :: "rat option"
  upd_isFavorite :: "bool option option"

section \<open>Floating-point numbers\<close>

text \<open>
  JavaScript numbers are binary64 and a \<open>real\<close> column is binary32: the result of an
  operation is the exact result rounded to the nearest value with 53 (or 24) significant
  bits, ties to the even one. \<open>exponent2 x\<close> is the exponent of the leading bit of a
  positive \<open>x\<close>. The exponent range is not modelled: hours, rates and amounts are far
  inside it.
\<close>

fun ilog2 :: "nat \<Rightarrow> nat" where
  "ilog2 n = (if n < 2 then 0 else Suc (ilog2 (n div 2)))"

declare ilog2.simps [simp del]

definition exponent2 :: "rat \<Rightarrow> int" where
  "exponent2 x =
     (if 1 \<le> x then int (ilog2 (nat \<lfloor>x\<rfloor>))
      else (let m = nat \<lceil>1 / x\<rceil> in - int (if m \<le> 1 then 0 else Suc (ilog2 (m - 1)))))"

definition pow2 :: "int \<Rightarrow> rat" where
  "pow2 k = (if 0 \<le> k then 2 ^ nat k else 1 / 2 ^ nat (- k))"

definition round_half_even :: "rat \<Rightarrow> int" where
  "round_half_even r =
     (let f = \<lfloor>r\<rfloor>; d = r - of_int f
      in if d < 1 / 2 then f else if 1 / 2 < d then f + 1 else if even f then f else f + 1)"

definition round_float :: "nat \<Rightarrow> rat \<Rightarrow> rat" where
  "round_float p x =
     (if x = 0 then 0
      else (let ulp = pow2 (exponent2 \<bar>x\<bar> - int p + 1)
            in of_int (round_half_even (x / ulp)) * ulp))"

definition binary64 :: "rat \<Rightarrow> rat" where
  "binary64 = round_float 53"

definition binary32 :: "rat \<Rightarrow> rat" where
  "binary32 = round_float 24"

section \<open>Entity store (server/storage.ts)\<close>

text \<open>
  The store holds each table's rows, in insertion order, and the booking identifier
  counter. For \<open>MemStorage\<close> the order is the one in which \<open>Map.values()\<close> iterates; an
  update keeps a row's position, as \<open>Map.set\<close> on an existing key does. For
  \<open>DatabaseStorage\<close> the list is the table's content: a \<open>SELECT\<close> without \<open>ORDER BY\<close> returns
  its rows in an order of the database's choosing, given to each query below as a sort
  key \<open>ord\<close> on the rows (rows with equal keys come in table order).
\<close>

record store =
  parkingLocations :: "parkingLocation list"
  parkingSpots :: "parkingSpot list"
  parkingBookings :: "parkingBooking list"
  currentBookingIds :: int

text \<open>The two implementations of \<open>IStorage\<close>.\<close>

datatype backend = MemStorage | DatabaseStorage

definition getParkingLocationById :: "store \<Rightarrow> int \<Rightarrow> parkingLocation option" where
  "getParkingLocationById s i = find (\<lambda>l. location_id l = i) (parkingLocations s)"

definition getParkingSpotById :: "store \<Rightarrow> int \<Rightarrow> parkingSpot option" where
  "getParkingSpotById s i = find (\<lambda>sp. spot_id sp = i) (parkingSpots s)"

text \<open>\<open>MemStorage.getParkingSpotsByLocationId\<close> and \<open>DatabaseStorage.getParkingSpotsByLocationId\<close>.\<close>

definition getParkingSpotsByLocationId :: "store \<Rightarrow> int \<Rightarrow> parkingSpot list" where
  "getParkingSpotsByLocationId s loc =
     filter (\<lambda>spot. spot_locationId spot = loc) (parkingSpots s)"

definition db_getParkingSpotsByLocationId :: "(parkingSpot \<Rightarrow> int) \<Rightarrow> store \<Rightarrow> int \<Rightarrow> parkingSpot list" where
  "db_getParkingSpotsByLocationId ord s loc =
     sort_key ord (filter (\<lambda>spot. spot_locationId spot = loc) (parkingSpots s))"

text \<open>\<open>MemStorage.getAvailableParkingSpots\<close>: the flag pre-filter, the bookings of the
  location that are neither canceled nor completed, and the inclusive overlap test.\<close>

definition mem_getAvailableParkingSpots :: "store \<Rightarrow> int \<Rightarrow> int \<Rightarrow> int \<Rightarrow> parkingSpot list" where
  "mem_getAvailableParkingSpots s loc start end' =
     (let locationSpots = getParkingSpotsByLocationId s loc;
          availableSpots = filter (\<lambda>spot. isAvailable spot = Some True) locationSpots;
          bookings = filter (\<lambda>booking. locationId booking = loc \<and>
                                status booking \<noteq> ''canceled'' \<and>
                                status booking \<noteq> ''completed'') (parkingBookings s)
      in filter (\<lambda>spot.
           let hasOverlappingBooking =
                 (\<exists>booking \<in> set bookings.
                    spotId booking = spot_id spot \<and>
                    (startTime booking \<le> end' \<and> endTime booking \<ge> start))
           in \<not> hasOverlappingBooking) availableSpots)"

text \<open>\<open>DatabaseStorage.getAvailableParkingSpots\<close>: the same pre-filter on the rows as the
  database returned them; the query selects the location's pending or confirmed bookings
  that meet the window, and a spot is dropped when its id is among their \<open>spotId\<close>s.\<close>

definition db_getAvailableParkingSpots :: "(parkingSpot \<Rightarrow> int) \<Rightarrow> store \<Rightarrow> int \<Rightarrow> int \<Rightarrow> int \<Rightarrow> parkingSpot list" where
  "db_getAvailableParkingSpots ord s loc start end' =
     (let spots = db_getParkingSpotsByLocationId ord s loc;
          availableSpots = filter (\<lambda>spot. isAvailable spot = Some True) spots;
          overlappingBookings =
            filter (\<lambda>booking. locationId booking = loc \<and>
                      (status booking = ''pending'' \<or> status booking = ''confirmed'') \<and>
                      endTime booking \<ge> start \<and>
                      startTime booking \<le> end') (parkingBookings s);
          bookedSpotIds = set (map spotId overlappingBookings)
      in filter (\<lambda>spot. spot_id spot \<notin> bookedSpotIds) availableSpots)"

text \<open>The order in which the table itself lists the rows.\<close>

definition table_order :: "parkingSpot \<Rightarrow> int" where
  "table_order sp = 0"

fun getAvailableParkingSpots :: "backend \<Rightarrow> (parkingSpot \<Rightarrow> int) \<Rightarrow> store \<Rightarrow> int \<Rightarrow> int \<Rightarrow> int \<Rightarrow> parkingSpot list" where
  "getAvailableParkingSpots MemStorage ord s loc start end' = mem_getAvailableParkingSpots s loc start end'"
| "getAvailableParkingSpots DatabaseStorage ord s loc start end' = db_getAvailableParkingSpots ord s loc start end'"

text \<open>\<open>updateParkingSpotAvailability\<close> throws when no spot has the id; \<open>None\<close> is the
  throw. The updated row it returns is used by no caller and is left out.\<close>

definition updateParkingSpotAvailability :: "store \<Rightarrow> int \<Rightarrow> bool \<Rightarrow> store option" where
  "updateParkingSpotAvailability s i flag =
     (case getParkingSpotById s i of
        None \<Rightarrow> None
      | Some existingSpot \<Rightarrow>
          Some (s\<lparr>parkingSpots :=
            map (\<lambda>sp. if spot_id sp = i then sp\<lparr>isAvailable := Some flag\<rparr> else sp)
              (parkingSpots s)\<rparr>))"

definition getParkingBookingById :: "store \<Rightarrow> int \<Rightarrow> parkingBooking option" where
  "getParkingBookingById s i = find (\<lambda>b. booking_id b = i) (parkingBookings s)"

text \<open>\<open>createParkingBooking\<close>: a fresh id from the counter (the \<open>serial\<close> column of the
  database), \<open>createdAt\<close> from the clock, \<open>status || "pending"\<close> and \<open>isFavorite || null\<close>.
  The database keeps and returns the total as its \<open>real\<close> column holds it.\<close>

definition createParkingBooking :: "backend \<Rightarrow> store \<Rightarrow> insertParkingBooking \<Rightarrow> int \<Rightarrow> parkingBooking \<times> store" where
  "createParkingBooking be s insertBooking now =
     (let i = currentBookingIds s;
          booking = \<lparr>booking_id = i,
                     userId = ins_userId insertBooking,
                     vehicleId = ins_vehicleId insertBooking,
                     spotId = ins_spotId insertBooking,
                     locationId = ins_locationId insertBooking,
                     startTime = ins_startTime insertBooking,
                     endTime = ins_endTime insertBooking,
                     status = (case ins_status insertBooking of
                                 None \<Rightarrow> ''pending''
                               | Some st \<Rightarrow> if st = [] then ''pending'' else st),
                     bookingCode = ins_bookingCode insertBooking,
                     totalAmount = (case be of
                                      MemStorage \<Rightarrow> ins_totalAmount insertBooking
                                    | DatabaseStorage \<Rightarrow> binary32 (ins_totalAmount insertBooking)),
                     createdAt = Some now,
                     isFavorite = (if ins_isFavorite insertBooking = Some True
                                   then Some True else None)\<rparr>
      in (booking, s\<lparr>parkingBookings := parkingBookings s @ [booking],
                     currentBookingIds := i + 1\<rparr>))"

text \<open>\<open>{ ...existingBooking, ...bookingUpdate }\<close>: a field of the patch that is present
  replaces the row's. A time is kept as the patch holds it and read through \<open>new Date\<close>.\<close>

definition merge_booking :: "parkingBooking \<Rightarrow> bookingUpdate \<Rightarrow> parkingBooking" where
  "merge_booking b u =
     b\<lparr>userId := (case upd_userId u of None \<Rightarrow> userId b | Some v \<Rightarrow> v),
       vehicleId := (case upd_vehicleId u of None \<Rightarrow> vehicleId b | Some v \<Rightarrow> v),
       spotId := (case upd_spotId u of None \<Rightarrow> spotId b | Some v \<Rightarrow> v),
       locationId := (case upd_locationId u of None \<Rightarrow> locationId b | Some v \<Rightarrow> v),
       startTime := (case upd_startTime u of None \<Rightarrow> startTime b | Some v \<Rightarrow> date_of v),
       endTime := (case upd_endTime u of None \<Rightarrow> endTime b | Some v \<Rightarrow> date_of v),
       status := (case upd_status u of None \<Rightarrow> status b | Some v \<Rightarrow> v),
       bookingCode := (case upd_bookingCode u of None \<Rightarrow> bookingCode b | Some v \<Rightarrow> v),
       totalAmount := (case upd_totalAmount u of None \<Rightarrow> totalAmount b | Some v \<Rightarrow> v),
       isFavorite := (case upd_isFavorite u of None \<Rightarrow> isFavorite b | Some v \<Rightarrow> v)\<rparr>"

definition no_update :: bookingUpdate where
  "no_update = \<lparr>upd_userId = None, upd_vehicleId = None, upd_spotId = None,
     upd_locationId = None, upd_startTime = None, upd_endTime = None, upd_status = None,
     upd_bookingCode = None, upd_totalAmount = None, upd_isFavorite = None\<rparr>"

text \<open>What \<open>DatabaseStorage.updateParkingBooking\<close> cannot turn into an \<open>UPDATE\<close>: a patch
  with no value to set, and a time that is not a \<open>Date\<close>. The query builder throws on
  either.\<close>

definition db_rejects :: "bookingUpdate \<Rightarrow> bool" where
  "db_rejects u \<longleftrightarrow>
     (upd_userId u = None \<and> upd_vehicleId u = None \<and> upd_spotId u = None \<and>
      upd_locationId u = None \<and> upd_startTime u = None \<and> upd_endTime u = None \<and>
      upd_status u = None \<and> upd_bookingCode u = None \<and> upd_totalAmount u = None \<and>
      upd_isFavorite u = None) \<or>
     (case upd_startTime u of None \<Rightarrow> False | Some v \<Rightarrow> \<not> is_date v) \<or>
     (case upd_endTime u of None \<Rightarrow> False | Some v \<Rightarrow> \<not> is_date v)"

text \<open>The values \<open>updateParkingBooking\<close> writes for a patch. \<open>MemStorage\<close> merges the patch
  as it is. \<open>DatabaseStorage\<close> throws on a patch it rejects (\<open>None\<close> is the throw) and keeps a
  patched total as its \<open>real\<close> column holds it.\<close>

definition stored_update :: "backend \<Rightarrow> bookingUpdate \<Rightarrow> bookingUpdate option" where
  "stored_update be u =
     (case be of
        MemStorage \<Rightarrow> Some u
      | DatabaseStorage \<Rightarrow>
          if db_rejects u then None
          else Some (u\<lparr>upd_totalAmount := map_option binary32 (upd_totalAmount u)\<rparr>))"

text \<open>\<open>updateParkingBooking\<close> also throws when no booking has the id.\<close>

definition updateParkingBooking :: "backend \<Rightarrow> store \<Rightarrow> int \<Rightarrow> bookingUpdate \<Rightarrow> (parkingBooking \<times> store) option" where
  "updateParkingBooking be s i u =
     (case stored_update be u of
        None \<Rightarrow> None
      | Some values \<Rightarrow>
          (case getParkingBookingById s i of
             None \<Rightarrow> None
           | Some existingBooking \<Rightarrow>
               Some (merge_booking existingBooking values,
                     s\<lparr>parkingBookings :=
                       map (\<lambda>b. if booking_id b = i then merge_booking b values else b)
                         (parkingBookings s)\<rparr>)))"

section \<open>Booking orchestrator (the /api/bookings routes)\<close>

text \<open>
  What a route answers when it does not answer with a row: 400 "No available parking
  spots for the selected time", 404 "Parking location not found", 400 "Invalid booking
  data" (the schema refused the row), 404 "Booking not found", 403 "Not authorized ...",
  and the 500 of the \<open>catch\<close> block.
\<close>

datatype error = NoAvailability | LocationNotFound | InvalidData | NotFound | Forbidden | Failed

text \<open>The body of \<open>POST /api/bookings\<close>, and what the handler reads from outside the
  request and the store: the clock (\<open>new Date()\<close>), the upper-case hex digits of
  \<open>crypto.randomBytes(3)\<close>, and the order in which the database returns rows to this
  call.\<close>

record bookingRequest =
  req_locationId :: int
  req_vehicleId :: int
  req_startTime :: bodyTime
  req_endTime :: bodyTime

record env =
  clock :: int
  randomHex :: string
  rowOrder :: "parkingSpot \<Rightarrow> int"

definition generateBookingCode :: "string \<Rightarrow> string" where
  "generateBookingCode hex = ''PARK-'' @ hex"

text \<open>\<open>Math.ceil((end - start) / (1000 * 60 * 60))\<close> and \<open>(hours * rate) + 1.5\<close>, each
  operation rounded to binary64; the rate is read as the binary64 number it is.\<close>

definition booking_hours :: "int \<Rightarrow> int \<Rightarrow> int" where
  "booking_hours start end' = \<lceil>binary64 (of_int (end' - start) / (1000 * 60 * 60))\<rceil>"

definition booking_total :: "int \<Rightarrow> int \<Rightarrow> rat \<Rightarrow> rat" where
  "booking_total start end' rate =
     binary64 (binary64 (of_int (booking_hours start end') * binary64 rate) + 3 / 2)"

text \<open>The object the handler hands to \<open>insertParkingBookingSchema.parse\<close>: the times are
  the body's own values, not the \<open>Date\<close>s made from them for the resolver.\<close>

record bookingInput =
  in_userId :: int
  in_vehicleId :: int
  in_spotId :: int
  in_locationId :: int
  in_startTime :: bodyTime
  in_endTime :: bodyTime
  in_status :: string
  in_bookingCode :: string
  in_totalAmount :: rat

definition bookingInput :: "int \<Rightarrow> bookingRequest \<Rightarrow> env \<Rightarrow> parkingSpot \<Rightarrow> parkingLocation \<Rightarrow> bookingInput" where
  "bookingInput uid req e spot location =
     \<lparr>in_userId = uid,
      in_vehicleId = req_vehicleId req,
      in_spotId = spot_id spot,
      in_locationId = req_locationId req,
      in_startTime = req_startTime req,
      in_endTime = req_endTime req,
      in_status = ''confirmed'',
      in_bookingCode = generateBookingCode (randomHex e),
      in_totalAmount = booking_total (date_of (req_startTime req)) (date_of (req_endTime req))
                         (hourlyRate location)\<rparr>"

text \<open>\<open>insertParkingBookingSchema.parse\<close>: the schema made from the table asks for a \<open>Date\<close>
  in each timestamp column and throws a \<open>ZodError\<close> otherwise; \<open>None\<close> is the throw. The
  other fields have the columns' types in this model.\<close>

definition insertParkingBookingSchema_parse :: "bookingInput \<Rightarrow> insertParkingBooking option" where
  "insertParkingBookingSchema_parse d =
     (if is_date (in_startTime d) \<and> is_date (in_endTime d)
      then Some \<lparr>ins_userId = in_userId d,
                 ins_vehicleId = in_vehicleId d,
                 ins_spotId = in_spotId d,
                 ins_locationId = in_locationId d,
                 ins_startTime = date_of (in_startTime d),
                 ins_endTime = date_of (in_endTime d),
                 ins_status = Some (in_status d),
                 ins_bookingCode = in_bookingCode d,
                 ins_totalAmount = in_totalAmount d,
                 ins_isFavorite = None\<rparr>
      else None)"

text \<open>The row that the schema returns for the handler's input when both times are
  \<open>Date\<close>s (\<open>parse_bookingInput\<close> below).\<close>

definition parsed_bookingData :: "int \<Rightarrow> bookingRequest \<Rightarrow> env \<Rightarrow> parkingSpot \<Rightarrow> parkingLocation \<Rightarrow> insertParkingBooking" where
  "parsed_bookingData uid req e spot location =
     \<lparr>ins_userId = uid,
      ins_vehicleId = req_vehicleId req,
      ins_spotId = spot_id spot,
      ins_locationId = req_locationId req,
      ins_startTime = date_of (req_startTime req),
      ins_endTime = date_of (req_endTime req),
      ins_status = Some ''confirmed'',
      ins_bookingCode = generateBookingCode (randomHex e),
      ins_totalAmount = booking_total (date_of (req_startTime req)) (date_of (req_endTime req))
                          (hourlyRate location),
      ins_isFavorite = None\<rparr>"

text \<open>\<open>POST /api/bookings\<close> for the authenticated user \<open>uid\<close>, run without interruption.\<close>

definition createBooking :: "backend \<Rightarrow> store \<Rightarrow> int \<Rightarrow> bookingRequest \<Rightarrow> env \<Rightarrow> (error + parkingBooking) \<times> store" where
  "createBooking be s uid req e =
     (case getAvailableParkingSpots be (rowOrder e) s (req_locationId req)
             (date_of (req_startTime req)) (date_of (req_endTime req)) of
        [] \<Rightarrow> (Inl NoAvailability, s)
      | spot0 # _ \<Rightarrow>
          (case getParkingLocationById s (req_locationId req) of
             None \<Rightarrow> (Inl LocationNotFound, s)
           | Some location \<Rightarrow>
               (case insertParkingBookingSchema_parse (bookingInput uid req e spot0 location) of
                  None \<Rightarrow> (Inl InvalidData, s)
                | Some bookingData \<Rightarrow>
                    (let (newBooking, s1) = createParkingBooking be s bookingData (clock e)
                     in case updateParkingSpotAvailability s1 (spot_id spot0) False of
                          None \<Rightarrow> (Inl Failed, s1)
                        | Some s2 \<Rightarrow> (Inr newBooking, s2)))))"

text \<open>\<open>PATCH /api/bookings/:id\<close>: the ownership check, then the patch as it came.\<close>

definition modifyBooking :: "backend \<Rightarrow> store \<Rightarrow> int \<Rightarrow> int \<Rightarrow> bookingUpdate \<Rightarrow> (error + parkingBooking) \<times> store" where
  "modifyBooking be s bookingId uid body =
     (case getParkingBookingById s bookingId of
        None \<Rightarrow> (Inl NotFound, s)
      | Some booking \<Rightarrow>
          if userId booking \<noteq> uid then (Inl Forbidden, s)
          else (case updateParkingBooking be s bookingId body of
                  None \<Rightarrow> (Inl Failed, s)
                | Some (updatedBooking, s1) \<Rightarrow> (Inr updatedBooking, s1)))"

text \<open>\<open>DELETE /api/bookings/:id\<close>: the same checks, the status set to canceled, then
  the spot of the booking as it was fetched is released.\<close>

definition cancelBooking :: "backend \<Rightarrow> store \<Rightarrow> int \<Rightarrow> int \<Rightarrow> (error + unit) \<times> store" where
  "cancelBooking be s bookingId uid =
     (case getParkingBookingById s bookingId of
        None \<Rightarrow> (Inl NotFound, s)
      | Some booking \<Rightarrow>
          if userId booking \<noteq> uid then (Inl Forbidden, s)
          else (case updateParkingBooking be s bookingId (no_update\<lparr>upd_status := Some ''canceled''\<rparr>) of
                  None \<Rightarrow> (Inl Failed, s)
                | Some (_, s1) \<Rightarrow>
                    (case updateParkingSpotAvailability s1 (spotId booking) True of
                       None \<Rightarrow> (Inl Failed, s1)
                     | Some s2 \<Rightarrow> (Inr (), s2))))"

section \<open>Concrete stores and requests\<close>

text \<open>Scenario 1 of the specification: location L with one spot and an hourly rate of 5.
  Times of day are milliseconds after midnight.\<close>

definition scenario_location :: parkingLocation where
  "scenario_location = \<lparr>location_id = 1, location_name = ''L'', address = ''1 Main Street'',
     latitude = 0, longitude = 0, totalSpots = 1, hourlyRate = 5, rating = None,
     reviewCount = None, hasMetroAccess = None\<rparr>"

definition scenario_spot :: parkingSpot where
  "scenario_spot = \<lparr>spot_id = 1, spot_locationId = 1, spotNumber = ''A1'', spot_level = None,
     spot_section = None, isAvailable = Some True, spotType = None\<rparr>"

definition scenario_store :: store where
  "scenario_store = \<lparr>parkingLocations = [scenario_location], parkingSpots = [scenario_spot],
     parkingBookings = [], currentBookingIds = 1\<rparr>"

text \<open>The requests for 14:00 to 17:00 and for 15:00 to 16:00 as the route receives them
  from a client, with the times in a JSON body.\<close>

definition json_request_14_17 :: bookingRequest where
  "json_request_14_17 = \<lparr>req_locationId = 1, req_vehicleId = 1,
     req_startTime = JsonTime 50400000, req_endTime = JsonTime 61200000\<rparr>"

definition json_request_15_16 :: bookingRequest where
  "json_request_15_16 = \<lparr>req_locationId = 1, req_vehicleId = 2,
     req_startTime = JsonTime 54000000, req_endTime = JsonTime 57600000\<rparr>"

text \<open>The same requests with \<open>Date\<close> objects for the times, as only a caller inside the
  process can make them.\<close>

definition request_14_17 :: bookingRequest where
  "request_14_17 = \<lparr>req_locationId = 1, req_vehicleId = 1,
     req_startTime = DateObject 50400000, req_endTime = DateObject 61200000\<rparr>"

definition request_15_16 :: bookingRequest where
  "request_15_16 = \<lparr>req_locationId = 1, req_vehicleId = 2,
     req_startTime = DateObject 54000000, req_endTime = DateObject 57600000\<rparr>"

definition env0 :: env where
  "env0 = \<lparr>clock = 0, randomHex = ''A1B2C3'', rowOrder = spot_id\<rparr>"

text \<open>The booking of user 7 for 14:00 to 17:00 and the store that holds it.\<close>

definition scenario_booking :: parkingBooking where
  "scenario_booking = \<lparr>booking_id = 1, userId = 7, vehicleId = 1, spotId = 1, locationId = 1,
     startTime = 50400000, endTime = 61200000, status = ''confirmed'',
     bookingCode = ''PARK-A1B2C3'', totalAmount = 33 / 2, createdAt = Some 0,
     isFavorite = None\<rparr>"

definition scenario_store_booked :: store where
  "scenario_store_booked = \<lparr>parkingLocations = [scenario_location],
     parkingSpots = [scenario_spot\<lparr>isAvailable := Some False\<rparr>],
     parkingBookings = [scenario_booking], currentBookingIds = 2\<rparr>"




text \<open>The booked store with the spot's flag true again, as after the release of the
  spot by a cancellation, and the times 17:00, one millisecond later, 18:00 and 19:00.\<close>

definition released_store :: store where
  "released_store = scenario_store_booked\<lparr>parkingSpots := [scenario_spot]\<rparr>"

definition t_17_00 :: int where "t_17_00 = 61200000"
definition t_17_00_001 :: int where "t_17_00_001 = 61200001"
definition t_18_00 :: int where "t_18_00 = 64800000"
definition t_19_00 :: int where "t_19_00 = 68400000"

text \<open>The booking of user 7 canceled, then patched by its owner to a status the
  schema's comment does not list.\<close>

definition odd_status_store :: store where
  "odd_status_store = \<lparr>parkingLocations = [scenario_location], parkingSpots = [scenario_spot],
     parkingBookings = [scenario_booking\<lparr>status := ''in_progress''\<rparr>], currentBookingIds = 2\<rparr>"




text \<open>Scenario 2 continued: user 7 books and cancels, then user 8 books 15:00 to 16:00
  and holds the spot.\<close>

definition env1 :: env where
  "env1 = \<lparr>clock = 5, randomHex = ''0F0F0F'', rowOrder = spot_id\<rparr>"

definition rebooked_booking :: parkingBooking where
  "rebooked_booking = \<lparr>booking_id = 2, userId = 8, vehicleId = 2, spotId = 1, locationId = 1,
     startTime = 54000000, endTime = 57600000, status = ''confirmed'',
     bookingCode = ''PARK-0F0F0F'', totalAmount = 13 / 2, createdAt = Some 5,
     isFavorite = None\<rparr>"

definition rebooked_store :: store where
  "rebooked_store = \<lparr>parkingLocations = [scenario_location],
     parkingSpots = [scenario_spot\<lparr>isAvailable := Some False\<rparr>],
     parkingBookings = [scenario_booking\<lparr>status := ''canceled''\<rparr>, rebooked_booking],
     currentBookingIds = 3\<rparr>"





text \<open>
  The store as \<open>initializeDemoData\<close> leaves it: three locations, the spots A1 to A10 of the
  first (ids 1 to 10), B1 to B15 of the second (ids 11 to 25) and C1 to C8 of the third
  (ids 26 to 33), and the demo user's confirmed booking for 16:00 to 19:00, which names
  spot 2 and location 2; spot 2 is flagged unavailable. The booking is made at noon. The
  numbers of a location are given as the source writes them and kept as the \<open>real\<close>
  columns of \<open>DatabaseStorage\<close>, the storage the routes use, hold them (\<open>MemStorage\<close>
  would keep them as they are; the booking routes read the hourly rate only, which is
  the same number in both).
\<close>

definition seed_location :: "int \<Rightarrow> string \<Rightarrow> string \<Rightarrow> rat \<Rightarrow> rat \<Rightarrow> int \<Rightarrow> rat \<Rightarrow> rat \<Rightarrow> int \<Rightarrow> parkingLocation" where
  "seed_location i n a lat lng spots rate r reviews =
     \<lparr>location_id = i, location_name = n, address = a, latitude = binary32 lat,
      longitude = binary32 lng, totalSpots = spots, hourlyRate = binary32 rate,
      rating = Some (binary32 r), reviewCount = Some reviews, hasMetroAccess = Some True\<rparr>"

definition seed_locations :: "parkingLocation list" where
  "seed_locations =
     [seed_location 1 ''Central Metro Parking'' ''123 Main Street, City Center''
        (377749 / 10000) (- (1224194 / 10000)) 50 5 (9 / 2) 128,
      seed_location 2 ''Westside Metro Parking'' ''456 West Avenue, Downtown''
        (377734 / 10000) (- (1224314 / 10000)) 75 (9 / 2) (21 / 5) 95,
      seed_location 3 ''Eastside Metro Parking'' ''789 East Boulevard, City East''
        (377854 / 10000) (- (1224054 / 10000)) 40 6 (47 / 10) 112]"

definition seed_spot :: "int \<Rightarrow> string \<Rightarrow> string \<Rightarrow> int \<times> string \<Rightarrow> parkingSpot" where
  "seed_spot loc lvl sec row =
     \<lparr>spot_id = fst row, spot_locationId = loc, spotNumber = snd row, spot_level = Some lvl,
      spot_section = Some sec, isAvailable = Some True, spotType = Some ''standard''\<rparr>"

definition seed_spots :: "parkingSpot list" where
  "seed_spots =
     map (seed_spot 1 ''1'' ''A'')
      [(1, ''A1''), (2, ''A2''), (3, ''A3''), (4, ''A4''), (5, ''A5''), (6, ''A6''),
       (7, ''A7''), (8, ''A8''), (9, ''A9''), (10, ''A10'')] @
     map (seed_spot 2 ''2'' ''B'')
      [(11, ''B1''), (12, ''B2''), (13, ''B3''), (14, ''B4''), (15, ''B5''),
       (16, ''B6''), (17, ''B7''), (18, ''B8''), (19, ''B9''), (20, ''B10''),
       (21, ''B11''), (22, ''B12''), (23, ''B13''), (24, ''B14''), (25, ''B15'')] @
     map (seed_spot 3 ''1'' ''C'')
      [(26, ''C1''), (27, ''C2''), (28, ''C3''), (29, ''C4''), (30, ''C5''),
       (31, ''C6''), (32, ''C7''), (33, ''C8'')]"

definition seed_booking :: parkingBooking where
  "seed_booking = \<lparr>booking_id = 1, userId = 1, vehicleId = 1, spotId = 2, locationId = 2,
     startTime = 57600000, endTime = 68400000, status = ''confirmed'',
     bookingCode = ''PARK-123ABC'', totalAmount = 27 / 2, createdAt = Some 43200000,
     isFavorite = None\<rparr>"

definition seed_store :: store where
  "seed_store = \<lparr>parkingLocations = seed_locations,
     parkingSpots = map (\<lambda>sp. if spot_id sp = 2 then sp\<lparr>isAvailable := Some False\<rparr> else sp) seed_spots,
     parkingBookings = [seed_booking], currentBookingIds = 2\<rparr>"

text \<open>The seed after the demo user has canceled the booking (which releases spot 2) and
  patched its status back to confirmed.\<close>

definition reconfirmed_seed_store :: store where
  "reconfirmed_seed_store = \<lparr>parkingLocations = seed_locations, parkingSpots = seed_spots,
     parkingBookings = [seed_booking], currentBookingIds = 2\<rparr>"

definition t_16_00 :: int where "t_16_00 = 57600000"

section \<open>The specification's availability answer\<close>

text \<open>
  These three definitions follow the words of the specification, not the code: an
  active booking is pending or confirmed, intervals \<open>[s1, e1)\<close> and \<open>[s2, e2)\<close> overlap iff
  \<open>s1 < e2\<close> and \<open>s2 < e1\<close>, and \<open>listAvailableSpots\<close> excludes exactly the spots of the
  location with an active overlapping booking, whatever their flag.
\<close>

definition spec_active :: "parkingBooking \<Rightarrow> bool" where
  "spec_active b \<longleftrightarrow> status b = ''pending'' \<or> status b = ''confirmed''"

definition spec_overlap :: "int \<Rightarrow> int \<Rightarrow> int \<Rightarrow> int \<Rightarrow> bool" where
  "spec_overlap s1 e1 s2 e2 \<longleftrightarrow> s1 < e2 \<and> s2 < e1"

definition spec_listAvailableSpots :: "store \<Rightarrow> int \<Rightarrow> int \<Rightarrow> int \<Rightarrow> parkingSpot list" where
  "spec_listAvailableSpots s loc t0 t1 =
     filter (\<lambda>sp. spot_locationId sp = loc \<and>
               \<not> (\<exists>b \<in> set (parkingBookings s).
                     spotId b = spot_id sp \<and> spec_active b \<and>
                     spec_overlap (startTime b) (endTime b) t0 t1))
       (parkingSpots s)"

section \<open>Sequences of requests\<close>











section \<open>Two requests in flight\<close>

text \<open>
  The \<open>POST /api/bookings\<close> handler gives up control at each \<open>await\<close> of a storage call,
  so another request's handler may run between two of its storage calls. A handler is
  therefore a small machine: its state tells which storage call comes next and holds the
  local values read so far (the first available spot, the row to insert, the new
  booking). One step performs one storage call on the current store and the checks that
  follow it, the schema check among them. The request's user, body and environment are
  fixed for the call.
\<close>

type_synonym call = "int \<times> bookingRequest \<times> env"

datatype handler =
  AwaitSpots
| AwaitLocation parkingSpot
| AwaitCreate parkingSpot insertParkingBooking
| AwaitFlag parkingSpot parkingBooking
| Responded "error + parkingBooking"

fun handler_step :: "backend \<Rightarrow> call \<Rightarrow> handler \<Rightarrow> store \<Rightarrow> handler \<times> store" where
  "handler_step be (uid, req, e) AwaitSpots s =
     (case getAvailableParkingSpots be (rowOrder e) s (req_locationId req)
             (date_of (req_startTime req)) (date_of (req_endTime req)) of
        [] \<Rightarrow> (Responded (Inl NoAvailability), s)
      | spot0 # _ \<Rightarrow> (AwaitLocation spot0, s))"
| "handler_step be (uid, req, e) (AwaitLocation spot0) s =
     (case getParkingLocationById s (req_locationId req) of
        None \<Rightarrow> (Responded (Inl LocationNotFound), s)
      | Some location \<Rightarrow>
          (case insertParkingBookingSchema_parse (bookingInput uid req e spot0 location) of
             None \<Rightarrow> (Responded (Inl InvalidData), s)
           | Some bookingData \<Rightarrow> (AwaitCreate spot0 bookingData, s)))"
| "handler_step be (uid, req, e) (AwaitCreate spot0 bookingData) s =
     (let (newBooking, s1) = createParkingBooking be s bookingData (clock e)
      in (AwaitFlag spot0 newBooking, s1))"
| "handler_step be (uid, req, e) (AwaitFlag spot0 newBooking) s =
     (case updateParkingSpotAvailability s (spot_id spot0) False of
        None \<Rightarrow> (Responded (Inl Failed), s)
      | Some s2 \<Rightarrow> (Responded (Inr newBooking), s2))"
| "handler_step be (uid, req, e) (Responded r) s = (Responded r, s)"

text \<open>Two calls \<open>A\<close> and \<open>B\<close> on one store under a schedule: \<open>True\<close> lets \<open>A\<close> take its next
  step, \<open>False\<close> lets \<open>B\<close>.\<close>

fun interleave :: "backend \<Rightarrow> call \<Rightarrow> call \<Rightarrow> bool list \<Rightarrow> handler \<times> handler \<times> store
    \<Rightarrow> handler \<times> handler \<times> store" where
  "interleave be cA cB [] cfg = cfg"
| "interleave be cA cB (True # sched) (hA, hB, s) =
     (let (hA', s') = handler_step be cA hA s in interleave be cA cB sched (hA', hB, s'))"
| "interleave be cA cB (False # sched) (hA, hB, s) =
     (let (hB', s') = handler_step be cB hB s in interleave be cA cB sched (hA, hB', s'))"

text \<open>The states of a handler that has stored nothing and has not answered with a
  booking.\<close>

fun nothing_stored :: "handler \<Rightarrow> bool" where
  "nothing_stored AwaitSpots = True"
| "nothing_stored (AwaitLocation spot0) = True"
| "nothing_stored (Responded (Inl err)) = True"
| "nothing_stored (Responded (Inr newBooking)) = False"
| "nothing_stored (AwaitCreate spot0 bookingData) = False"
| "nothing_stored (AwaitFlag spot0 newBooking) = False"

text \<open>One call after the other, and the schedule in which both calls ask the resolver
  before either goes on.\<close>

definition sequential_schedule :: "bool list" where
  "sequential_schedule = [True, True, True, True, False, False, False, False]"

definition racing_schedule :: "bool list" where
  "racing_schedule = [True, False, True, True, True, False, False, False]"

text \<open>What the racing schedule leaves when both calls are made with \<open>Date\<close> objects.\<close>

definition raced_store :: store where
  "raced_store = \<lparr>parkingLocations = [scenario_location],
     parkingSpots = [scenario_spot\<lparr>isAvailable := Some False\<rparr>],
     parkingBookings = [scenario_booking, rebooked_booking], currentBookingIds = 3\<rparr>"

section \<open>Facts about the store operations\<close>

lemmas storage_defs = getParkingLocationById_def getParkingSpotById_def
  getParkingSpotsByLocationId_def db_getParkingSpotsByLocationId_def
  mem_getAvailableParkingSpots_def db_getAvailableParkingSpots_def
  updateParkingSpotAvailability_def getParkingBookingById_def createParkingBooking_def
  merge_booking_def db_rejects_def stored_update_def updateParkingBooking_def no_update_def

lemmas route_defs = generateBookingCode_def bookingInput_def insertParkingBookingSchema_parse_def
  createBooking_def modifyBooking_def cancelBooking_def

lemmas scenario_defs = scenario_location_def scenario_spot_def scenario_store_def
  request_14_17_def request_15_16_def json_request_14_17_def json_request_15_16_def env0_def
  scenario_booking_def scenario_store_booked_def

lemmas released_defs = released_store_def t_17_00_def t_17_00_001_def t_18_00_def t_19_00_def

lemmas rebooked_defs = env1_def rebooked_booking_def rebooked_store_def

text \<open>The arithmetic of the scenario's bookings is exact in binary64 and binary32.\<close>

lemma booking_total_14_17: "booking_total 50400000 61200000 5 = 33 / 2"
  by code_simp

lemma booking_total_15_16: "booking_total 54000000 57600000 5 = 13 / 2"
  by code_simp

lemma booking_total_18_19: "booking_total 64800000 68400000 5 = 13 / 2"
  by code_simp

lemma binary32_33_2: "binary32 (33 / 2) = 33 / 2"
  by code_simp

lemma binary32_13_2: "binary32 (13 / 2) = 13 / 2"
  by code_simp

lemmas scenario_totals = booking_total_14_17 booking_total_15_16 booking_total_18_19
  binary32_33_2 binary32_13_2

lemma find_Some_member:
  "find P xs = Some x \<Longrightarrow> P x \<and> x \<in> set xs"
  by (induction xs) (auto split: if_splits)

lemma set_db_location_spots:
  "set (db_getParkingSpotsByLocationId ord s loc) = set (getParkingSpotsByLocationId s loc)"
  by (simp add: db_getParkingSpotsByLocationId_def getParkingSpotsByLocationId_def)

lemma mem_available_iff:
  "sp \<in> set (mem_getAvailableParkingSpots s loc t0 t1) \<longleftrightarrow>
     sp \<in> set (parkingSpots s) \<and> spot_locationId sp = loc \<and> isAvailable sp = Some True \<and>
     \<not> (\<exists>b \<in> set (parkingBookings s). locationId b = loc \<and>
            status b \<noteq> ''canceled'' \<and> status b \<noteq> ''completed'' \<and>
            spotId b = spot_id sp \<and> startTime b \<le> t1 \<and> endTime b \<ge> t0)"
  by (auto simp: mem_getAvailableParkingSpots_def getParkingSpotsByLocationId_def Let_def)

lemma db_available_iff:
  "sp \<in> set (db_getAvailableParkingSpots ord s loc t0 t1) \<longleftrightarrow>
     sp \<in> set (parkingSpots s) \<and> spot_locationId sp = loc \<and> isAvailable sp = Some True \<and>
     \<not> (\<exists>b \<in> set (parkingBookings s). locationId b = loc \<and>
            (status b = ''pending'' \<or> status b = ''confirmed'') \<and>
            spotId b = spot_id sp \<and> startTime b \<le> t1 \<and> endTime b \<ge> t0)"
  by (auto simp: db_getAvailableParkingSpots_def set_db_location_spots
      getParkingSpotsByLocationId_def Let_def image_iff)

lemma getAvailable_members:
  "sp \<in> set (getAvailableParkingSpots be ord s loc t0 t1) \<Longrightarrow>
     sp \<in> set (parkingSpots s) \<and> spot_locationId sp = loc \<and> isAvailable sp = Some True"
  by (cases be) (simp_all add: mem_available_iff db_available_iff)


lemma no_flagged_spot_no_availability:
  assumes "\<forall>sp \<in> set (getParkingSpotsByLocationId s loc). isAvailable sp \<noteq> Some True"
  shows "getAvailableParkingSpots be ord s loc t0 t1 = []"
proof (cases "getAvailableParkingSpots be ord s loc t0 t1")
  case Nil
  then show ?thesis .
next
  case (Cons sp rest)
  then have "sp \<in> set (getAvailableParkingSpots be ord s loc t0 t1)" by simp
  then have "sp \<in> set (parkingSpots s) \<and> spot_locationId sp = loc \<and> isAvailable sp = Some True"
    by (rule getAvailable_members)
  with assms show ?thesis by (auto simp: getParkingSpotsByLocationId_def)
qed




lemma parse_bookingInput:
  "insertParkingBookingSchema_parse (bookingInput uid req e spot0 location) =
     (if is_date (req_startTime req) \<and> is_date (req_endTime req)
      then Some (parsed_bookingData uid req e spot0 location) else None)"
  by (simp add: insertParkingBookingSchema_parse_def bookingInput_def parsed_bookingData_def)

lemma createBooking_refused:
  "getAvailableParkingSpots be (rowOrder e) s (req_locationId req)
     (date_of (req_startTime req)) (date_of (req_endTime req)) = spot0 # rest
   \<Longrightarrow> getParkingLocationById s (req_locationId req) = Some location
   \<Longrightarrow> \<not> (is_date (req_startTime req) \<and> is_date (req_endTime req))
   \<Longrightarrow> createBooking be s uid req e = (Inl InvalidData, s)"
  by (auto simp: createBooking_def parse_bookingInput)



lemma updateParkingSpotAvailability_eq:
  "updateParkingSpotAvailability s i flag =
     (if \<exists>sp \<in> set (parkingSpots s). spot_id sp = i
      then Some (s\<lparr>parkingSpots := map (\<lambda>sp. if spot_id sp = i then sp\<lparr>isAvailable := Some flag\<rparr> else sp) (parkingSpots s)\<rparr>)
      else None)"
  by (auto simp: updateParkingSpotAvailability_def getParkingSpotById_def find_None_iff
      split: option.splits dest: find_Some_member)



text \<open>Patches and cancellation.\<close>

lemma stored_status_update:
  "stored_update be (no_update\<lparr>upd_status := Some st\<rparr>) = Some (no_update\<lparr>upd_status := Some st\<rparr>)"
  by (cases be) (simp_all add: stored_update_def db_rejects_def no_update_def)

lemma merge_status_only:
  "merge_booking b (no_update\<lparr>upd_status := Some st\<rparr>) = b\<lparr>status := st\<rparr>"
  by (simp add: merge_booking_def no_update_def)

lemma map_flag_absent:
  "\<not> (\<exists>sp \<in> set xs. spot_id sp = i) \<Longrightarrow>
     map (\<lambda>sp. if spot_id sp = i then sp\<lparr>isAvailable := Some flag\<rparr> else sp) xs = xs"
  by (induction xs) auto

lemma cancelBooking_owner:
  assumes "getParkingBookingById s bid = Some b" "userId b = uid"
  shows "cancelBooking be s bid uid =
     (if \<exists>sp \<in> set (parkingSpots s). spot_id sp = spotId b then Inr () else Inl Failed,
      s\<lparr>parkingBookings := map (\<lambda>b'. if booking_id b' = bid then b'\<lparr>status := ''canceled''\<rparr> else b') (parkingBookings s),
        parkingSpots := map (\<lambda>sp. if spot_id sp = spotId b then sp\<lparr>isAvailable := Some True\<rparr> else sp) (parkingSpots s)\<rparr>)"
  using assms
  by (simp add: cancelBooking_def updateParkingBooking_def stored_status_update merge_status_only
      updateParkingSpotAvailability_eq map_flag_absent)

lemma distinct_ids_unique:
  assumes "distinct (map booking_id bs)" "b \<in> set bs" "b' \<in> set bs" "booking_id b = booking_id b'"
  shows "b = b'"
  using assms by (meson distinct_map inj_onD)

lemma recancel_bookings_unchanged:
  assumes "getParkingBookingById s bid = Some b" "status b = ''canceled''"
    "distinct (map booking_id (parkingBookings s))"
  shows "map (\<lambda>b'. if booking_id b' = bid then b'\<lparr>status := ''canceled''\<rparr> else b') (parkingBookings s)
           = parkingBookings s"
proof (rule map_idI)
  fix b' assume b': "b' \<in> set (parkingBookings s)"
  from assms(1) have b: "booking_id b = bid" "b \<in> set (parkingBookings s)"
    by (auto simp: getParkingBookingById_def dest: find_Some_member)
  show "(if booking_id b' = bid then b'\<lparr>status := ''canceled''\<rparr> else b') = b'"
  proof (cases "booking_id b' = bid")
    case True
    then have "b' = b" using distinct_ids_unique[OF assms(3) b' b(2)] b(1) by simp
    then show ?thesis using assms(2) by simp
  next
    case False
    then show ?thesis by simp
  qed
qed


text \<open>The resolvers as filters of the spot table.\<close>

lemma sort_key_table_order: "sort_key table_order xs = xs"
proof (induction xs)
  case Nil
  show ?case by simp
next
  case (Cons x xs)
  then show ?case by (cases xs) (simp_all add: table_order_def)
qed

lemma mem_resolver_filter:
  "mem_getAvailableParkingSpots s loc t0 t1 =
     filter (\<lambda>sp. sp \<in> set (mem_getAvailableParkingSpots s loc t0 t1)) (parkingSpots s)"
  unfolding mem_available_iff
  unfolding mem_getAvailableParkingSpots_def getParkingSpotsByLocationId_def Let_def filter_filter
  by (rule filter_cong) auto

lemma db_resolver_filter:
  "db_getAvailableParkingSpots ord s loc t0 t1 =
     sort_key ord (filter (\<lambda>sp. sp \<in> set (db_getAvailableParkingSpots ord s loc t0 t1)) (parkingSpots s))"
  unfolding db_available_iff
  unfolding db_getAvailableParkingSpots_def db_getParkingSpotsByLocationId_def Let_def
    filter_sort filter_filter
  by (rule arg_cong[where f = "sort_key ord"], rule filter_cong) (auto simp: image_iff)










lemma modifyBooking_store:
  "snd (modifyBooking be s bid uid u) =
     (case getParkingBookingById s bid of
        None \<Rightarrow> s
      | Some b \<Rightarrow>
          if userId b \<noteq> uid then s
          else (case stored_update be u of
                  None \<Rightarrow> s
                | Some v \<Rightarrow>
                    s\<lparr>parkingBookings :=
                       map (\<lambda>b'. if booking_id b' = bid then merge_booking b' v else b')
                         (parkingBookings s)\<rparr>))"
  by (simp add: modifyBooking_def updateParkingBooking_def split: option.splits)








text \<open>The handler as a machine.\<close>

lemma handler_steps_createBooking:
  "interleave be (uid, req, e) cB [True, True, True, True] (AwaitSpots, hB, s) =
     (Responded (fst (createBooking be s uid req e)), hB, snd (createBooking be s uid req e))"
  by (simp add: createBooking_def split: list.splits option.splits prod.splits)

lemma interleave_append:
  "interleave be cA cB (xs @ ys) cfg = interleave be cA cB ys (interleave be cA cB xs cfg)"
proof (induction xs arbitrary: cfg)
  case Nil
  show ?case by simp
next
  case (Cons x xs)
  obtain hA hB s where cfg: "cfg = (hA, hB, s)" by (cases cfg)
  show ?case
    by (cases x) (simp_all add: cfg Cons.IH split: prod.splits)
qed

lemma json_handler_step:
  assumes "\<not> (is_date (req_startTime req) \<and> is_date (req_endTime req))" "nothing_stored h"
  shows "nothing_stored (fst (handler_step be (uid, req, e) h s)) \<and>
         snd (handler_step be (uid, req, e) h s) = s"
  using assms
  by (cases h rule: nothing_stored.cases)
    (auto simp: parse_bookingInput split: list.splits option.splits)

lemma json_interleave:
  assumes "\<not> (is_date (req_startTime reqA) \<and> is_date (req_endTime reqA))"
    "\<not> (is_date (req_startTime reqB) \<and> is_date (req_endTime reqB))"
    "nothing_stored hA" "nothing_stored hB"
  shows "(case interleave be (uidA, reqA, eA) (uidB, reqB, eB) sched (hA, hB, s) of
          (hA', hB', s') \<Rightarrow> nothing_stored hA' \<and> nothing_stored hB' \<and> s' = s)"
  using assms(3,4)
proof (induction sched arbitrary: hA hB)
  case Nil
  then show ?case by simp
next
  case (Cons x sched)
  show ?case
  proof (cases x)
    case True
    obtain hA' where step: "handler_step be (uidA, reqA, eA) hA s = (hA', s)" "nothing_stored hA'"
      using json_handler_step[OF assms(1) Cons.prems(1), of be uidA eA s]
      by (cases "handler_step be (uidA, reqA, eA) hA s") auto
    show ?thesis using True step Cons.IH[OF step(2) Cons.prems(2)] by simp
  next
    case False
    obtain hB' where step: "handler_step be (uidB, reqB, eB) hB s = (hB', s)" "nothing_stored hB'"
      using json_handler_step[OF assms(2) Cons.prems(2), of be uidB eB s]
      by (cases "handler_step be (uidB, reqB, eB) hB s") auto
    show ?thesis using False step Cons.IH[OF Cons.prems(1) step(2)] by simp
  qed
qed

text \<open>
  With \<open>Date\<close> objects for the times, which no client can send, the schema accepts both
  calls of scenario 1, and the schedule in which both ask the resolver before either
  inserts gives two confirmed bookings of spot 1: the handler holds no lock and runs in
  no transaction.
\<close>

lemma racing_dates_double_booking:
  "interleave be (7, request_14_17, env0) (8, request_15_16, env1) racing_schedule
       (AwaitSpots, AwaitSpots, scenario_store)
     = (Responded (Inr scenario_booking), Responded (Inr rebooked_booking), raced_store)"
  by (cases be) (simp_all add: racing_schedule_def storage_defs route_defs scenario_defs env1_def
      rebooked_booking_def raced_store_def scenario_totals parsed_bookingData_def Let_def)

section \<open>No double booking\<close>



section \<open>What the resolver returns\<close>

text \<open>
  Claim C2, as amended. The in-memory resolver returns, in store order, exactly the spots
  of the location whose flag is true and for which the store has no booking of that
  location and that spot, neither canceled nor completed, with
  \<open>startTime \<le> t1\<close> and \<open>t0 \<le> endTime\<close>. The answer therefore depends on the flag, and a
  booking that only touches the window excludes its spot.
\<close>

theorem mem_getAvailableParkingSpots_characterisation:
  "mem_getAvailableParkingSpots s loc t0 t1 =
     filter (\<lambda>sp. spot_locationId sp = loc \<and> isAvailable sp = Some True \<and>
               \<not> (\<exists>b \<in> set (parkingBookings s). locationId b = loc \<and> spotId b = spot_id sp \<and>
                      status b \<noteq> ''canceled'' \<and> status b \<noteq> ''completed'' \<and>
                      startTime b \<le> t1 \<and> t0 \<le> endTime b))
       (parkingSpots s)"
  unfolding mem_getAvailableParkingSpots_def getParkingSpotsByLocationId_def Let_def filter_filter
  by (rule filter_cong) auto

text \<open>
  Claim C2 as stated fails. With the spot booked for 14:00 to 17:00 and its flag false, a
  request for 18:00 to 19:00 gets no spot, while no active booking overlaps that window.
  With the flag true again, a request for 17:00 to 18:00 gets no spot either, while the
  half-open intervals do not overlap.
\<close>

theorem availability_flag_counterexample:
  "mem_getAvailableParkingSpots scenario_store_booked 1 t_18_00 t_19_00 = [] \<and>
   spec_listAvailableSpots scenario_store_booked 1 t_18_00 t_19_00 =
     [scenario_spot\<lparr>isAvailable := Some False\<rparr>] \<and>
   mem_getAvailableParkingSpots released_store 1 t_17_00 t_18_00 = [] \<and>
   spec_listAvailableSpots released_store 1 t_17_00 t_18_00 = [scenario_spot]"
  by (simp add: storage_defs scenario_defs released_defs spec_active_def spec_overlap_def
      spec_listAvailableSpots_def Let_def)

section \<open>Two calls for one spot\<close>

text \<open>
  Claim C3 does not hold on the code: no call succeeds. In scenario 1 (one spot, free,
  rate 5) take the two requests a client sends for 14:00 to 17:00 and for 15:00 to 16:00.
  Run one after the other, or with both asking the resolver first, each is answered 400
  "Invalid booking data" and the store is as before; under every schedule neither handler
  stores anything or answers with a booking. The handler passes the body's own time
  values to the schema, which wants \<open>Date\<close>s.
\<close>

theorem concurrent_json_calls_refused:
  "interleave be (uidA, json_request_14_17, eA) (uidB, json_request_15_16, eB) sequential_schedule
       (AwaitSpots, AwaitSpots, scenario_store)
     = (Responded (Inl InvalidData), Responded (Inl InvalidData), scenario_store) \<and>
   interleave be (uidA, json_request_14_17, eA) (uidB, json_request_15_16, eB) racing_schedule
       (AwaitSpots, AwaitSpots, scenario_store)
     = (Responded (Inl InvalidData), Responded (Inl InvalidData), scenario_store) \<and>
   (\<forall>sched.
      case interleave be (uidA, json_request_14_17, eA) (uidB, json_request_15_16, eB) sched
             (AwaitSpots, AwaitSpots, scenario_store) of
        (hA, hB, s') \<Rightarrow> nothing_stored hA \<and> nothing_stored hB \<and> s' = scenario_store)"
proof (intro conjI allI)
  show "interleave be (uidA, json_request_14_17, eA) (uidB, json_request_15_16, eB) sequential_schedule
       (AwaitSpots, AwaitSpots, scenario_store)
     = (Responded (Inl InvalidData), Responded (Inl InvalidData), scenario_store)"
    by (cases be) (simp_all add: sequential_schedule_def storage_defs route_defs scenario_defs Let_def)
  show "interleave be (uidA, json_request_14_17, eA) (uidB, json_request_15_16, eB) racing_schedule
       (AwaitSpots, AwaitSpots, scenario_store)
     = (Responded (Inl InvalidData), Responded (Inl InvalidData), scenario_store)"
    by (cases be) (simp_all add: racing_schedule_def storage_defs route_defs scenario_defs Let_def)
  fix sched
  show "case interleave be (uidA, json_request_14_17, eA) (uidB, json_request_15_16, eB) sched
             (AwaitSpots, AwaitSpots, scenario_store) of
        (hA, hB, s') \<Rightarrow> nothing_stored hA \<and> nothing_stored hB \<and> s' = scenario_store"
    by (rule json_interleave) (simp_all add: json_request_14_17_def json_request_15_16_def)
qed

section \<open>Requests whose end is not after their start\<close>




section \<open>A client's booking request\<close>

text \<open>
  Claim C5 does not hold on the code. In scenario 1 (one spot, free, rate 5) the request
  a client sends for 14:00 to 17:00 is answered 400 "Invalid booking data" by either
  backend: no booking is stored, no total is charged and the spot's flag stays true. The
  request for 15:00 to 16:00 that follows gets the same answer, not NoAvailability. The
  handler makes \<open>Date\<close>s of the body's times for the resolver and for the hours, but hands
  the body's own values to the schema, which wants \<open>Date\<close>s.
\<close>

theorem json_booking_request_refused:
  "createBooking be scenario_store uid json_request_14_17 e = (Inl InvalidData, scenario_store) \<and>
   createBooking be scenario_store uid' json_request_15_16 e' = (Inl InvalidData, scenario_store)"
  by (cases be) (simp_all add: storage_defs route_defs scenario_defs Let_def)

section \<open>The resolver's boundary policy\<close>

text \<open>
  Claim C6, as amended. Take a spot of the location whose flag is true. The in-memory
  resolver leaves it out of its answer exactly when the store has a booking recorded
  under that location and for that spot, neither canceled nor completed, with
  \<open>startTime \<le> requestedEnd\<close> and \<open>endTime \<ge> requestedStart\<close>; the database resolver,
  whatever the order of its rows, exactly when the store has such a booking that is
  pending or confirmed. In particular a pending or confirmed booking recorded under the
  location and for the spot excludes it on both backends when its \<open>endTime\<close> equals the
  requested start and its \<open>startTime\<close> is not after the requested end, or when its
  \<open>startTime\<close> equals the requested end and its \<open>endTime\<close> is not before the requested start.
\<close>

theorem resolver_exclusion_rule:
  "(sp \<in> set (getParkingSpotsByLocationId s loc) \<and> isAvailable sp = Some True \<longrightarrow>
      (sp \<notin> set (mem_getAvailableParkingSpots s loc t0 t1) \<longleftrightarrow>
         (\<exists>b \<in> set (parkingBookings s). locationId b = loc \<and>
            status b \<noteq> ''canceled'' \<and> status b \<noteq> ''completed'' \<and>
            spotId b = spot_id sp \<and> startTime b \<le> t1 \<and> endTime b \<ge> t0)) \<and>
      (sp \<notin> set (db_getAvailableParkingSpots ord s loc t0 t1) \<longleftrightarrow>
         (\<exists>b \<in> set (parkingBookings s). locationId b = loc \<and>
            (status b = ''pending'' \<or> status b = ''confirmed'') \<and>
            spotId b = spot_id sp \<and> startTime b \<le> t1 \<and> endTime b \<ge> t0))) \<and>
   (sp \<in> set (getParkingSpotsByLocationId s loc) \<and>
    b \<in> set (parkingBookings s) \<and> locationId b = loc \<and> spotId b = spot_id sp \<and>
    (status b = ''pending'' \<or> status b = ''confirmed'') \<and>
    (endTime b = t0 \<and> startTime b \<le> t1 \<or> startTime b = t1 \<and> t0 \<le> endTime b) \<longrightarrow>
      sp \<notin> set (mem_getAvailableParkingSpots s loc t0 t1) \<and>
      sp \<notin> set (db_getAvailableParkingSpots ord s loc t0 t1))"
proof (intro conjI impI)
  assume pre: "sp \<in> set (getParkingSpotsByLocationId s loc) \<and> isAvailable sp = Some True"
  then have sp: "sp \<in> set (parkingSpots s)" "spot_locationId sp = loc" "isAvailable sp = Some True"
    by (auto simp: getParkingSpotsByLocationId_def)
  show "sp \<notin> set (mem_getAvailableParkingSpots s loc t0 t1) \<longleftrightarrow>
         (\<exists>b \<in> set (parkingBookings s). locationId b = loc \<and>
            status b \<noteq> ''canceled'' \<and> status b \<noteq> ''completed'' \<and>
            spotId b = spot_id sp \<and> startTime b \<le> t1 \<and> endTime b \<ge> t0)"
    using sp mem_available_iff[of sp s loc t0 t1] by blast
  show "sp \<notin> set (db_getAvailableParkingSpots ord s loc t0 t1) \<longleftrightarrow>
         (\<exists>b \<in> set (parkingBookings s). locationId b = loc \<and>
            (status b = ''pending'' \<or> status b = ''confirmed'') \<and>
            spotId b = spot_id sp \<and> startTime b \<le> t1 \<and> endTime b \<ge> t0)"
    using sp db_available_iff[of sp ord s loc t0 t1] by blast
next
  assume pre: "sp \<in> set (getParkingSpotsByLocationId s loc) \<and>
    b \<in> set (parkingBookings s) \<and> locationId b = loc \<and> spotId b = spot_id sp \<and>
    (status b = ''pending'' \<or> status b = ''confirmed'') \<and>
    (endTime b = t0 \<and> startTime b \<le> t1 \<or> startTime b = t1 \<and> t0 \<le> endTime b)"
  then have ov: "startTime b \<le> t1 \<and> endTime b \<ge> t0" by auto
  from pre have act: "status b \<noteq> ''canceled'' \<and> status b \<noteq> ''completed''"
    by auto
  show "sp \<notin> set (mem_getAvailableParkingSpots s loc t0 t1)"
    using pre ov act by (auto simp: mem_available_iff)
  show "sp \<notin> set (db_getAvailableParkingSpots ord s loc t0 t1)"
    using pre ov by (auto simp: db_available_iff)
qed

theorem resolver_exclusion_rule_witness:
  "scenario_spot \<in> set (getParkingSpotsByLocationId released_store 1) \<and>
   isAvailable scenario_spot = Some True \<and>
   scenario_booking \<in> set (parkingBookings released_store) \<and>
   locationId scenario_booking = 1 \<and> spotId scenario_booking = spot_id scenario_spot \<and>
   status scenario_booking = ''confirmed'' \<and>
   endTime scenario_booking = t_17_00 \<and> startTime scenario_booking \<le> t_18_00 \<and>
   scenario_spot \<notin> set (mem_getAvailableParkingSpots released_store 1 t_17_00 t_18_00) \<and>
   scenario_spot \<notin> set (db_getAvailableParkingSpots spot_id released_store 1 t_17_00 t_18_00) \<and>
   scenario_spot \<in> set (mem_getAvailableParkingSpots released_store 1 t_17_00_001 t_18_00) \<and>
   scenario_spot \<in> set (db_getAvailableParkingSpots spot_id released_store 1 t_17_00_001 t_18_00)"
  using resolver_exclusion_rule
    [of scenario_spot released_store 1 t_17_00 t_18_00 spot_id scenario_booking]
    resolver_exclusion_rule
    [of scenario_spot released_store 1 t_17_00_001 t_18_00 spot_id scenario_booking]
  by (simp add: storage_defs scenario_defs released_defs Let_def)

text \<open>
  Claim C6 as stated fails, in both directions. In the seeded store, after the demo user
  has canceled the booking and patched it back to confirmed, spot 2 has a true flag and a
  confirmed booking for 16:00 to 19:00, yet both resolvers return it for that window at
  location 1: the booking is recorded under location 2. And with the only booking of
  spot 1 patched to \<open>in_progress\<close>, a status that is neither pending nor confirmed, the
  in-memory resolver leaves spot 1 out for 15:00 to 16:00. And a confirmed booking of
  spot 1 that ends at 17:00 does not exclude the spot from a window requested from 17:00
  back to 13:00, since the booking starts after 13:00.
\<close>

theorem resolver_exclusion_counterexample:
  "snd (modifyBooking MemStorage (snd (cancelBooking MemStorage seed_store 1 1)) 1 1
          (no_update\<lparr>upd_status := Some ''confirmed''\<rparr>)) = reconfirmed_seed_store \<and>
   snd (modifyBooking DatabaseStorage (snd (cancelBooking DatabaseStorage seed_store 1 1)) 1 1
          (no_update\<lparr>upd_status := Some ''confirmed''\<rparr>)) = reconfirmed_seed_store \<and>
   seed_spot 1 ''1'' ''A'' (2, ''A2'') \<in> set (getParkingSpotsByLocationId reconfirmed_seed_store 1) \<and>
   isAvailable (seed_spot 1 ''1'' ''A'' (2, ''A2'')) = Some True \<and>
   (\<exists>b \<in> set (parkingBookings reconfirmed_seed_store).
      spotId b = spot_id (seed_spot 1 ''1'' ''A'' (2, ''A2'')) \<and> spec_active b \<and>
      startTime b \<le> t_19_00 \<and> endTime b \<ge> t_16_00) \<and>
   seed_spot 1 ''1'' ''A'' (2, ''A2'') \<in> set (mem_getAvailableParkingSpots reconfirmed_seed_store 1 t_16_00 t_19_00) \<and>
   seed_spot 1 ''1'' ''A'' (2, ''A2'') \<in> set (db_getAvailableParkingSpots spot_id reconfirmed_seed_store 1 t_16_00 t_19_00) \<and>
   scenario_spot \<in> set (getParkingSpotsByLocationId odd_status_store 1) \<and>
   isAvailable scenario_spot = Some True \<and>
   scenario_spot \<notin> set (mem_getAvailableParkingSpots odd_status_store 1 54000000 57600000) \<and>
   \<not> (\<exists>b \<in> set (parkingBookings odd_status_store). spec_active b) \<and>
   scenario_booking \<in> set (parkingBookings released_store) \<and>
   spotId scenario_booking = spot_id scenario_spot \<and> spec_active scenario_booking \<and>
   endTime scenario_booking = t_17_00 \<and>
   scenario_spot \<in> set (mem_getAvailableParkingSpots released_store 1 t_17_00 46800000) \<and>
   scenario_spot \<in> set (db_getAvailableParkingSpots spot_id released_store 1 t_17_00 46800000)"
proof -
  have found: "getParkingBookingById seed_store 1 = Some seed_booking"
    by (simp add: getParkingBookingById_def seed_store_def seed_booking_def)
  have owner: "userId seed_booking = 1"
    by (simp add: seed_booking_def)
  have released: "map (\<lambda>sp. if spot_id sp = spotId seed_booking then sp\<lparr>isAvailable := Some True\<rparr> else sp)
      (parkingSpots seed_store) = seed_spots"
    by (simp add: seed_store_def seed_booking_def seed_spots_def seed_spot_def)
  have canceled: "map (\<lambda>b'. if booking_id b' = 1 then b'\<lparr>status := ''canceled''\<rparr> else b')
      (parkingBookings seed_store) = [seed_booking\<lparr>status := ''canceled''\<rparr>]"
    by (simp add: seed_store_def seed_booking_def)
  have known: "\<exists>sp \<in> set (parkingSpots seed_store). spot_id sp = spotId seed_booking"
    by (simp add: seed_store_def seed_booking_def seed_spots_def seed_spot_def)
  have seed: "cancelBooking be seed_store 1 1 =
      (Inr (), seed_store\<lparr>parkingBookings := [seed_booking\<lparr>status := ''canceled''\<rparr>],
                          parkingSpots := seed_spots\<rparr>)" for be
    unfolding cancelBooking_owner[OF found owner] released canceled using known by simp
  have patch: "snd (modifyBooking be (seed_store\<lparr>parkingBookings := [seed_booking\<lparr>status := ''canceled''\<rparr>],
                          parkingSpots := seed_spots\<rparr>) 1 1 (no_update\<lparr>upd_status := Some ''confirmed''\<rparr>))
      = reconfirmed_seed_store" for be
    by (simp add: modifyBooking_store stored_status_update merge_status_only getParkingBookingById_def
        seed_store_def seed_booking_def reconfirmed_seed_store_def)
  have spot: "seed_spot 1 ''1'' ''A'' (2, ''A2'') \<in> set (parkingSpots reconfirmed_seed_store)"
    by (simp add: reconfirmed_seed_store_def seed_spots_def)
  have fields: "spot_locationId (seed_spot 1 ''1'' ''A'' (2, ''A2'')) = 1"
    "isAvailable (seed_spot 1 ''1'' ''A'' (2, ''A2'')) = Some True"
    "spot_id (seed_spot 1 ''1'' ''A'' (2, ''A2'')) = 2"
    by (simp_all add: seed_spot_def)
  have bookings: "parkingBookings reconfirmed_seed_store = [seed_booking]"
    by (simp add: reconfirmed_seed_store_def)
  have mem: "seed_spot 1 ''1'' ''A'' (2, ''A2'') \<in> set (mem_getAvailableParkingSpots reconfirmed_seed_store 1 t_16_00 t_19_00)"
    unfolding mem_available_iff using spot fields by (simp add: bookings seed_booking_def)
  have db: "seed_spot 1 ''1'' ''A'' (2, ''A2'') \<in> set (db_getAvailableParkingSpots spot_id reconfirmed_seed_store 1 t_16_00 t_19_00)"
    unfolding db_available_iff using spot fields by (simp add: bookings seed_booking_def)
  have ex: "\<exists>b \<in> set (parkingBookings reconfirmed_seed_store).
      spotId b = spot_id (seed_spot 1 ''1'' ''A'' (2, ''A2'')) \<and> spec_active b \<and>
      startTime b \<le> t_19_00 \<and> endTime b \<ge> t_16_00"
    by (simp add: bookings fields seed_booking_def spec_active_def t_16_00_def t_19_00_def)
  have loc: "seed_spot 1 ''1'' ''A'' (2, ''A2'') \<in> set (getParkingSpotsByLocationId reconfirmed_seed_store 1)"
    using spot fields by (simp add: getParkingSpotsByLocationId_def)
  have odd: "scenario_spot \<in> set (getParkingSpotsByLocationId odd_status_store 1) \<and>
     isAvailable scenario_spot = Some True \<and>
     scenario_spot \<notin> set (mem_getAvailableParkingSpots odd_status_store 1 54000000 57600000) \<and>
     \<not> (\<exists>b \<in> set (parkingBookings odd_status_store). spec_active b)"
    by (simp add: storage_defs scenario_defs odd_status_store_def spec_active_def Let_def)
  have backwards: "scenario_booking \<in> set (parkingBookings released_store) \<and>
     spotId scenario_booking = spot_id scenario_spot \<and> spec_active scenario_booking \<and>
     endTime scenario_booking = t_17_00 \<and>
     scenario_spot \<in> set (mem_getAvailableParkingSpots released_store 1 t_17_00 46800000) \<and>
     scenario_spot \<in> set (db_getAvailableParkingSpots spot_id released_store 1 t_17_00 46800000)"
    by (simp add: storage_defs scenario_defs released_defs spec_active_def Let_def)
  show ?thesis
    using seed patch loc fields(2) ex mem db odd backwards by simp
qed

section \<open>Cancellation\<close>



section \<open>Canceling a canceled booking\<close>

text \<open>
  Claim C8, as amended. Booking ids being unique, a \<open>cancelBooking\<close> call by the owner on
  a booking that is already canceled is answered neither NotFound nor Forbidden. It
  leaves the bookings, the locations and the counter as they are and sets the flag of the
  booking's spot to true; the store is unchanged only if that flag was true already.
\<close>

theorem recancel_releases_spot:
  assumes "getParkingBookingById s bid = Some b" "status b = ''canceled''" "userId b = uid"
    "distinct (map booking_id (parkingBookings s))"
  shows "fst (cancelBooking be s bid uid) \<noteq> Inl NotFound \<and>
         fst (cancelBooking be s bid uid) \<noteq> Inl Forbidden \<and>
         snd (cancelBooking be s bid uid) =
           s\<lparr>parkingSpots :=
               map (\<lambda>sp. if spot_id sp = spotId b then sp\<lparr>isAvailable := Some True\<rparr> else sp) (parkingSpots s)\<rparr> \<and>
         (snd (cancelBooking be s bid uid) = s \<longleftrightarrow>
            (\<forall>sp \<in> set (parkingSpots s). spot_id sp = spotId b \<longrightarrow> isAvailable sp = Some True))"
proof -
  let ?f = "\<lambda>sp. if spot_id sp = spotId b then sp\<lparr>isAvailable := Some True\<rparr> else sp"
  have run: "cancelBooking be s bid uid =
     (if \<exists>sp \<in> set (parkingSpots s). spot_id sp = spotId b then Inr () else Inl Failed,
      s\<lparr>parkingSpots := map ?f (parkingSpots s)\<rparr>)"
    by (simp add: cancelBooking_owner[OF assms(1,3), of be] recancel_bookings_unchanged[OF assms(1,2,4)])
  have "s\<lparr>parkingSpots := map ?f (parkingSpots s)\<rparr> = s \<longleftrightarrow> map ?f (parkingSpots s) = parkingSpots s"
    by (cases s) auto
  also have "\<dots> \<longleftrightarrow> (\<forall>sp \<in> set (parkingSpots s). ?f sp = sp)"
    using map_eq_conv[of ?f "parkingSpots s" "\<lambda>x. x"] by simp
  also have "\<dots> \<longleftrightarrow> (\<forall>sp \<in> set (parkingSpots s). spot_id sp = spotId b \<longrightarrow> isAvailable sp = Some True)"
  proof (intro ball_cong refl)
    fix sp
    show "(?f sp = sp) = (spot_id sp = spotId b \<longrightarrow> isAvailable sp = Some True)"
      by (cases sp) auto
  qed
  finally show ?thesis using run by simp
qed

theorem recancel_releases_spot_witness:
  "getParkingBookingById rebooked_store 1 = Some (scenario_booking\<lparr>status := ''canceled''\<rparr>) \<and>
   userId scenario_booking = 7 \<and>
   distinct (map booking_id (parkingBookings rebooked_store)) \<and>
   fst (cancelBooking DatabaseStorage rebooked_store 1 7) = Inr () \<and>
   snd (cancelBooking DatabaseStorage rebooked_store 1 7) = rebooked_store\<lparr>parkingSpots := [scenario_spot]\<rparr>"
  using recancel_releases_spot [of rebooked_store 1 "scenario_booking\<lparr>status := ''canceled''\<rparr>" 7 DatabaseStorage]
  by (simp add: storage_defs route_defs scenario_defs rebooked_defs Let_def)

text \<open>
  Claim C8 as stated fails. User 7 books 14:00 to 17:00 and cancels; user 8 books 15:00 to
  16:00 and gets spot 1, whose flag is false again (the bookings made with \<open>Date\<close> objects,
  as the schema wants them). A second cancellation by user 7 is
  answered 204 on either backend and sets the flag of spot 1 to true while user 8's
  booking is confirmed.
\<close>

theorem recancel_counterexample:
  "snd (createBooking MemStorage
          (snd (cancelBooking MemStorage (snd (createBooking MemStorage scenario_store 7 request_14_17 env0)) 1 7))
          8 request_15_16 env1) = rebooked_store \<and>
   getParkingBookingById rebooked_store 1 = Some (scenario_booking\<lparr>status := ''canceled''\<rparr>) \<and>
   map isAvailable (parkingSpots rebooked_store) = [Some False] \<and>
   cancelBooking MemStorage rebooked_store 1 7 = (Inr (), rebooked_store\<lparr>parkingSpots := [scenario_spot]\<rparr>) \<and>
   cancelBooking DatabaseStorage rebooked_store 1 7 = (Inr (), rebooked_store\<lparr>parkingSpots := [scenario_spot]\<rparr>) \<and>
   map isAvailable (parkingSpots (snd (cancelBooking MemStorage rebooked_store 1 7))) = [Some True] \<and>
   map isAvailable (parkingSpots (snd (cancelBooking DatabaseStorage rebooked_store 1 7))) = [Some True] \<and>
   snd (cancelBooking MemStorage rebooked_store 1 7) \<noteq> rebooked_store \<and>
   snd (cancelBooking DatabaseStorage rebooked_store 1 7) \<noteq> rebooked_store"
  by (simp add: storage_defs route_defs scenario_defs rebooked_defs scenario_totals
      parsed_bookingData_def Let_def)

section \<open>The two backends' resolvers\<close>

text \<open>
  Claim C9, as amended. When every booking of the location has one of the four statuses
  of the schema's comment (pending, confirmed, canceled, completed), the in-memory and
  the database resolver return the same spots: the same rows, each as often, in whatever
  order the database returns them, and the same list when the database returns rows in
  table order.
\<close>

theorem backends_agree_on_documented_statuses:
  assumes "\<forall>b \<in> set (parkingBookings s). locationId b = loc \<longrightarrow>
             status b \<in> {''pending'', ''confirmed'', ''canceled'', ''completed''}"
  shows "mset (mem_getAvailableParkingSpots s loc t0 t1) = mset (db_getAvailableParkingSpots ord s loc t0 t1) \<and>
         set (mem_getAvailableParkingSpots s loc t0 t1) = set (db_getAvailableParkingSpots ord s loc t0 t1) \<and>
         mem_getAvailableParkingSpots s loc t0 t1 = db_getAvailableParkingSpots table_order s loc t0 t1"
proof -
  have same: "filter (\<lambda>sp. sp \<in> set (mem_getAvailableParkingSpots s loc t0 t1)) (parkingSpots s)
      = filter (\<lambda>sp. sp \<in> set (db_getAvailableParkingSpots ord' s loc t0 t1)) (parkingSpots s)" for ord'
    using assms by (intro filter_cong refl) (auto simp: mem_available_iff db_available_iff)
  have m: "mset (mem_getAvailableParkingSpots s loc t0 t1) = mset (db_getAvailableParkingSpots ord s loc t0 t1)"
    by (subst mem_resolver_filter, subst db_resolver_filter) (simp add: same[of ord])
  have l: "mem_getAvailableParkingSpots s loc t0 t1 = db_getAvailableParkingSpots table_order s loc t0 t1"
    by (subst mem_resolver_filter, subst db_resolver_filter)
      (simp add: same[of table_order] sort_key_table_order)
  from m have "set (mem_getAvailableParkingSpots s loc t0 t1) = set (db_getAvailableParkingSpots ord s loc t0 t1)"
    by (rule mset_eq_setD)
  with m l show ?thesis by simp
qed

theorem backends_agree_on_documented_statuses_witness:
  "(\<exists>b \<in> set (parkingBookings released_store). locationId b = 1) \<and>
   list_all (\<lambda>b. status b \<in> {''pending'', ''confirmed'', ''canceled'', ''completed''})
     (parkingBookings released_store) \<and>
   mem_getAvailableParkingSpots released_store 1 t_18_00 t_19_00 = [scenario_spot] \<and>
   db_getAvailableParkingSpots table_order released_store 1 t_18_00 t_19_00 = [scenario_spot] \<and>
   db_getAvailableParkingSpots spot_id released_store 1 t_18_00 t_19_00 = [scenario_spot]"
  using backends_agree_on_documented_statuses [of released_store 1 t_18_00 t_19_00 spot_id]
  by (simp add: storage_defs scenario_defs released_defs Let_def)

text \<open>
  Claim C9 as stated fails on a status outside the four. User 7 cancels the booking and
  then patches its status to \<open>in_progress\<close>, on either backend; for 15:00 to 16:00 the
  in-memory resolver counts the booking and returns no spot, the database resolver
  returns the spot.
\<close>

theorem backends_disagree_counterexample:
  "snd (modifyBooking MemStorage (snd (cancelBooking MemStorage scenario_store_booked 1 7)) 1 7
          (no_update\<lparr>upd_status := Some ''in_progress''\<rparr>)) = odd_status_store \<and>
   snd (modifyBooking DatabaseStorage (snd (cancelBooking DatabaseStorage scenario_store_booked 1 7)) 1 7
          (no_update\<lparr>upd_status := Some ''in_progress''\<rparr>)) = odd_status_store \<and>
   mem_getAvailableParkingSpots odd_status_store 1 54000000 57600000 = [] \<and>
   db_getAvailableParkingSpots table_order odd_status_store 1 54000000 57600000 = [scenario_spot] \<and>
   db_getAvailableParkingSpots spot_id odd_status_store 1 54000000 57600000 = [scenario_spot]"
  by (simp add: storage_defs route_defs scenario_defs odd_status_store_def Let_def)

section \<open>Error precedence for unknown locations\<close>



end
